theory Spec2Isabelle
  imports Complex_Main "HOL-Library.Log_Nat"
begin

section \<open>Python values shared by the three modules\<close>

text \<open>
  Exceptions are values. Only instances of Python's \<open>Exception\<close> are modelled (the only
  ones an \<open>except Exception\<close> clause catches); the string is the message or, for an
  exception raised by a collaborator (the remote service, librosa, the HTTP fetch), a tag
  that identifies it. An exception object tests true in an \<open>if\<close> unless its class defines
  \<open>__bool__\<close> or \<open>__len__\<close> otherwise; \<open>FalsyError\<close> stands for the exceptions of such
  classes that test false.
\<close>

datatype py_exception =
    ValueError string
  | RuntimeError string
  | FileNotFoundError string
  | CollaboratorError string
  | FalsyError string

fun truthy :: "py_exception \<Rightarrow> bool" where
  "truthy (FalsyError tag) = False"
| "truthy e = True"

section \<open>prompts.py\<close>

definition PROMPT_POOL :: "string list" where
  "PROMPT_POOL =
    [ ''Upbeat electronic dance track with bright synths and punchy drums'',
      ''Lo-fi hip hop beat for studying with warm vinyl crackle'',
      ''Ambient piano with evolving pads, slow and emotional'',
      ''Energetic rock with distorted guitars and powerful drums'',
      ''Funky groove with slap bass and tight rhythm guitar'',
      ''Epic orchestral with driving strings and heroic brass'',
      ''Dreamy synthwave with nostalgic 80s vibe'',
      ''Chill house with deep bass and soft vocal chops'',
      ''Cinematic trailer with tension and massive hits'',
      ''Melancholic acoustic guitar ballad'',
      ''Pulsing techno with minimal melodic elements'',
      ''Happy ukulele tune with hand claps and whistle'',
      ''Dark trap beat with 808s and sparse piano'',
      ''Jazz trio: piano, upright bass, and brushed drums'',
      ''Latin reggaeton rhythm with catchy hooks'',
      ''Bossa nova with smooth guitar and soft percussion'',
      ''Drum and bass with rapid breakbeats and airy pads'',
      ''K-pop inspired dance-pop with catchy chorus'',
      ''African afrobeat groove with polyrhythms'',
      ''Indian classical fusion with sitar and electronic beats'',
      ''Meditation music with Tibetan bowls and drones'',
      ''Celtic folk with fiddle and bodhr'' @ [CHR 0xC3, CHR 0xA1] @ ''n'',
      ''Bluegrass with banjo, mandolin, and fast tempo'',
      ''Moody R&B slow jam with lush harmonies'',
      ''Cheerful children'' @ [CHR 0xE2, CHR 0x80, CHR 0x99] @ ''s tune with simple melody'',
      ''Hardstyle EDM with distorted kicks and anthemic leads'',
      ''Minimalist piano motif with subtle reverb'',
      ''Experimental glitch with granular textures'',
      ''Soulful gospel choir with organ backing'',
      ''Festive holiday jingle with sleigh bells'' ]"

text \<open>
  The two non-ASCII characters of the pool (a-acute, right single quotation mark) are
  written as their UTF-8 bytes.

  Python's \<open>random\<close> module is a library, not code of this repository. It is a parameter
  of the model: a generator state \<open>'g\<close> (the module-global Mersenne Twister state), the
  state that \<open>random.seed(a)\<close> installs, the positions that \<open>random.sample(population, k)\<close>
  picks in a population of \<open>n\<close> elements and the position that \<open>random.choice\<close> picks.
\<close>

record 'g py_random =
  seed_state :: "int \<Rightarrow> 'g"
  sample_positions :: "'g \<Rightarrow> nat \<Rightarrow> nat \<Rightarrow> nat list \<times> 'g"
  choice_position :: "'g \<Rightarrow> nat \<Rightarrow> nat \<times> 'g"

text \<open>
  What the library documents: \<open>random.sample\<close> returns a \<open>k\<close>-length list of elements
  at pairwise different positions of the population, \<open>random.choice\<close> returns an element
  of a non-empty sequence.
\<close>

definition random_contract :: "'g py_random \<Rightarrow> bool" where
  "random_contract R \<longleftrightarrow>
     (\<forall>g n k. k \<le> n \<longrightarrow>
        length (fst (sample_positions R g n k)) = k \<and>
        distinct (fst (sample_positions R g n k)) \<and>
        (\<forall>j \<in> set (fst (sample_positions R g n k)). j < n)) \<and>
     (\<forall>g n. 0 < n \<longrightarrow> fst (choice_position R g n) < n)"

text \<open>\<open>[random.choice(PROMPT_POOL) for _ in range(num)]\<close>\<close>

fun choices :: "'g py_random \<Rightarrow> 'g \<Rightarrow> nat \<Rightarrow> string list \<times> 'g" where
  "choices R g 0 = ([], g)"
| "choices R g (Suc m) =
     (let (j, g1) = choice_position R g (length PROMPT_POOL);
          (ps, g2) = choices R g1 m
      in (PROMPT_POOL ! j # ps, g2))"

text \<open>
  \<open>sample_prompts(num, seed)\<close>. The first argument is the state of the global generator
  before the call; the result is paired with the state after it. \<open>random.sample\<close> raises
  \<open>ValueError\<close> when the sample size is negative (or larger than the population, which the
  guard excludes).
\<close>

definition sample_prompts ::
  "'g py_random \<Rightarrow> 'g \<Rightarrow> int \<Rightarrow> int \<Rightarrow> (py_exception + string list) \<times> 'g" where
  "sample_prompts R g num seed =
     (let g0 = seed_state R seed in
      if num \<le> int (length PROMPT_POOL) then
        (if num < 0 then
           (Inl (ValueError ''Sample larger than population or is negative''), g0)
         else
           (let (js, g1) = sample_positions R g0 (length PROMPT_POOL) (nat num)
            in (Inr (map (\<lambda>j. PROMPT_POOL ! j) js), g1)))
      else
        (let (ps, g1) = choices R g0 (nat num) in (Inr ps, g1)))"

text \<open>
  A concrete generator for evaluation: the state is a counter, \<open>sample\<close> takes the first
  \<open>k\<close> positions of the population rotated by the counter, \<open>choice\<close> takes the counter
  modulo the size.
\<close>

definition counter_random :: "nat py_random" where
  "counter_random =
     \<lparr> seed_state = (\<lambda>a. nat \<bar>a\<bar>),
       sample_positions = (\<lambda>g n k. (take k (rotate g [0..<n]), g + k)),
       choice_position = (\<lambda>g n. (g mod n, Suc g)) \<rparr>"

section \<open>pipeline.py: run_model\<close>

text \<open>
  What the remote call can hand back, as far as \<open>run_model\<close> inspects it: \<open>None\<close>, a
  string, a list, a dict (only string keys are looked up) or some other object, of which
  the code observes only the attribute \<open>url\<close>: absent, present but not callable, or a
  method that returns a locator or raises. Numbers, tuples and the like are objects
  without a \<open>url\<close> attribute.
\<close>

datatype url_attribute =
    NoUrl
  | UrlNotCallable
  | UrlReturns string
  | UrlRaises py_exception

datatype py_value =
    PNone
  | PStr string
  | PList "py_value list"
  | PDict "(string \<times> py_value) list"
  | PObject url_attribute

datatype remote_outcome = RemoteRaises py_exception | RemoteReturns py_value

text \<open>The three ways one pass through the \<open>try\<close> block ends.\<close>

datatype attempt_result = Returned "string list" | SoftFail | Raised py_exception

text \<open>\<open>[x for x in out if isinstance(x, str)]\<close>\<close>

fun str_entries :: "py_value list \<Rightarrow> string list" where
  "str_entries [] = []"
| "str_entries (PStr s # xs) = s # str_entries xs"
| "str_entries (v # xs) = str_entries xs"

text \<open>
  \<open>for key in [...]: if key in out and isinstance(out[key], str): return [out[key]]\<close>
  and the same loop for lists.
\<close>

fun first_str_under :: "(string \<times> py_value) list \<Rightarrow> string list \<Rightarrow> string option" where
  "first_str_under d [] = None"
| "first_str_under d (key # keys) =
     (case map_of d key of
        Some (PStr s) \<Rightarrow> Some s
      | _ \<Rightarrow> first_str_under d keys)"

fun first_list_under :: "(string \<times> py_value) list \<Rightarrow> string list \<Rightarrow> string list option" where
  "first_list_under d [] = None"
| "first_list_under d (key # keys) =
     (case map_of d key of
        Some (PList xs) \<Rightarrow> Some (str_entries xs)
      | _ \<Rightarrow> first_list_under d keys)"

text \<open>\<open>if hasattr(out, 'url') and callable(getattr(out, 'url')): return [out.url()]\<close>\<close>

fun url_method :: "url_attribute \<Rightarrow> attempt_result" where
  "url_method (UrlReturns u) = Returned [u]"
| "url_method (UrlRaises e) = Raised e"
| "url_method NoUrl = SoftFail"
| "url_method UrlNotCallable = SoftFail"

text \<open>
  The body of the \<open>try\<close> after the remote call returned \<open>out\<close>. A dict that matches
  neither loop falls through to the \<open>url\<close> test, which a dict does not pass.
\<close>

fun handle_output :: "py_value \<Rightarrow> attempt_result" where
  "handle_output PNone = SoftFail"
| "handle_output (PStr s) = Returned [s]"
| "handle_output (PList xs) = Returned (str_entries xs)"
| "handle_output (PDict d) =
     (case first_str_under d [''audio'', ''audio_url'', ''output'', ''url''] of
        Some s \<Rightarrow> Returned [s]
      | None \<Rightarrow>
          (case first_list_under d [''audio'', ''output''] of
             Some ss \<Rightarrow> Returned ss
           | None \<Rightarrow> url_method NoUrl))"
| "handle_output (PObject u) = url_method u"

fun attempt_outcome :: "remote_outcome \<Rightarrow> attempt_result" where
  "attempt_outcome (RemoteRaises e) = Raised e"
| "attempt_outcome (RemoteReturns out) = handle_output out"

text \<open>\<open>"lucataco/ace-step" in model\<close>: substring test.\<close>

fun contains :: "string \<Rightarrow> string \<Rightarrow> bool" where
  "contains sub [] = (sub = [])"
| "contains sub (c # cs) = (take (length sub) (c # cs) = sub \<or> contains sub cs)"

text \<open>The request built before the loop: \<open>(model_with_version, input_data)\<close>.\<close>

definition build_request :: "string \<Rightarrow> string \<Rightarrow> string \<times> (string \<times> string) list" where
  "build_request model prompt =
     (if contains ''lucataco/ace-step'' model then
        (if CHR '':'' \<notin> set model
         then ''lucataco/ace-step:280fc4f9ee507577f880a167f639c02622421d8fecf492454320311217b688f1''
         else model,
         [(''tags'', prompt), (''lyrics'', prompt)])
      else if contains ''meta/musicgen'' model \<or> contains ''musicgen'' model then
        (''meta/musicgen:671ac645ce5e552cc63a54a2bbff63fcf798043055d2dac5fc9e36a837eedcfb'',
         [(''prompt'', prompt), (''model_version'', ''stereo-large''),
          (''output_format'', ''mp3''), (''normalization_strategy'', ''peak'')])
      else (model, [(''prompt'', prompt)]))"

text \<open>
  The effects of \<open>run_model\<close>, in the order they happen: a call of \<open>replicate_mod.run\<close>,
  a \<open>logging.warning\<close> (attempt, retries, exception), a \<open>time.sleep\<close>.
\<close>

datatype effect =
    Called string
  | Warned int int py_exception
  | Slept real

record run_state =
  calls :: nat
  trace :: "effect list"

text \<open>
  The remote service is a black box: \<open>remote m i k\<close> is what the call with model \<open>m\<close> and
  input \<open>i\<close> does when \<open>k\<close> calls were made before it.

  \<open>run_attempts\<close> is the loop \<open>for attempt in range(1, retries + 1)\<close> over the attempt
  numbers still to come, with \<open>last_err\<close> as loop state, followed by the test
  \<open>if last_err:\<close> and the two \<open>raise\<close> statements after the loop. \<open>time.sleep\<close> raises
  \<open>ValueError\<close> for a negative argument; raised inside the handler, it leaves \<open>run_model\<close>.
\<close>

type_synonym remote_service = "string \<Rightarrow> (string \<times> string) list \<Rightarrow> nat \<Rightarrow> remote_outcome"

fun run_attempts ::
  "(nat \<Rightarrow> remote_outcome) \<Rightarrow> string \<Rightarrow> int \<Rightarrow> real \<Rightarrow> py_exception option \<Rightarrow> int list \<Rightarrow>
   'a run_state_scheme \<Rightarrow> (py_exception + string list) \<times> 'a run_state_scheme" where
  "run_attempts run mv retries backoff last_err [] s =
     (case last_err of
        Some e \<Rightarrow>
          (if truthy e then (Inl e, s)
           else (Inl (RuntimeError ''Model did not return a usable audio URL''), s))
      | None \<Rightarrow> (Inl (RuntimeError ''Model did not return a usable audio URL''), s))"
| "run_attempts run mv retries backoff last_err (attempt # rest) s =
     (let s1 = s\<lparr>calls := Suc (calls s), trace := trace s @ [Called mv]\<rparr> in
      case attempt_outcome (run (calls s)) of
        Returned urls \<Rightarrow> (Inr urls, s1)
      | SoftFail \<Rightarrow> run_attempts run mv retries backoff last_err rest s1
      | Raised e \<Rightarrow>
          (let s2 = s1\<lparr>trace := trace s1 @ [Warned attempt retries e]\<rparr> in
           if backoff * real_of_int attempt < 0 then
             (Inl (ValueError ''sleep length must be non-negative''), s2)
           else
             run_attempts run mv retries backoff (Some e) rest
               (s2\<lparr>trace := trace s2 @ [Slept (backoff * real_of_int attempt)]\<rparr>)))"

definition run_model ::
  "remote_service \<Rightarrow> string \<Rightarrow> string \<Rightarrow> int \<Rightarrow> real \<Rightarrow> 'a run_state_scheme \<Rightarrow>
   (py_exception + string list) \<times> 'a run_state_scheme" where
  "run_model remote model prompt retries backoff s =
     (let (mv, input_data) = build_request model prompt
      in run_attempts (remote mv input_data) mv retries backoff None [1..retries] s)"

section \<open>audio_utils.py\<close>

subsection \<open>Binary floating point\<close>

text \<open>
  A Python \<open>float\<close> is an IEEE binary64 number. A finite one is a rational number, and an
  arithmetic operation yields the exact result rounded to the nearest number with a
  significand of 53 bits, a tie going to the even significand: \<open>round64\<close>. The range of
  the exponent is not modelled: a magnitude of \<open>2 ^ 1024\<close> or more, where Python raises
  \<open>OverflowError\<close>, needs an integer argument far beyond \<open>2 ^ 53\<close>. Memory is not modelled
  either.

  \<open>binary_exponent x\<close> is the \<open>e\<close> with \<open>2 ^ e \<le> x < 2 ^ (e + 1)\<close> for \<open>x > 0\<close>.
\<close>

definition round_half_even :: "rat \<Rightarrow> int" where
  "round_half_even r =
     (let f = \<lfloor>r\<rfloor>
      in if r - of_int f < 1 / 2 then f
         else if 1 / 2 < r - of_int f then f + 1
         else if even f then f else f + 1)"

definition binary_exponent :: "rat \<Rightarrow> int" where
  "binary_exponent x =
     (let (n, d) = quotient_of x; k = bitlen n - bitlen d
      in if 2 powi k \<le> x then k else k - 1)"

definition round64 :: "rat \<Rightarrow> rat" where
  "round64 x =
     (if x = 0 then 0
      else let e = binary_exponent \<bar>x\<bar> - 52
           in sgn x * of_int (round_half_even (\<bar>x\<bar> / 2 powi e)) * 2 powi e)"

text \<open>\<open>float(i)\<close> for an integer, and \<open>int(x)\<close> for a float: truncation toward zero.\<close>

definition py_float :: "int \<Rightarrow> rat" where
  "py_float i = round64 (of_int i)"

definition py_int :: "rat \<Rightarrow> int" where
  "py_int x = (if 0 \<le> x then \<lfloor>x\<rfloor> else \<lceil>x\<rceil>)"

subsection \<open>The two readings of a WAV file\<close>

text \<open>
  pydub's \<open>AudioSegment.from_file\<close> gives a segment, of which the code uses the length and
  the repetition. A segment holds PCM frames at a frame rate (positive for every decoded
  file); \<open>len(segment)\<close> is \<open>round(1000 * (self.frame_count() / self.frame_rate))\<close>, the
  duration rounded to whole milliseconds, and \<open>segment * n\<close> repeats the frames.
  \<open>librosa.load(path, sr=22050, mono=True)\<close> gives the mono analysis buffer, an array of
  float32 samples (finite numbers, reals here).
\<close>

record segment =
  seg_frames :: nat
  seg_rate :: nat

definition seg_len :: "segment \<Rightarrow> int" where
  "seg_len audio =
     round_half_even
       (round64 (1000 * round64 (py_float (int (seg_frames audio)) / py_float (int (seg_rate audio)))))"

definition seg_repeat :: "segment \<Rightarrow> int \<Rightarrow> segment" where
  "seg_repeat audio n = audio\<lparr>seg_frames := seg_frames audio * nat n\<rparr>"

record wav =
  pydub :: segment
  librosa_y :: "real list"

subsection \<open>compute_audio_features\<close>

record feature_vector =
  duration_seconds :: real
  tempo_bpm :: real
  rms_mean :: real
  spectral_centroid_mean :: real
  zero_crossing_rate_mean :: real
  mfcc1_mean :: real

text \<open>
  The six librosa computations are collaborators: on a given buffer each one yields a
  number or raises.
\<close>

record librosa_results =
  lib_duration :: "py_exception + real"
  lib_tempo :: "py_exception + real"
  lib_rms_mean :: "py_exception + real"
  lib_centroid_mean :: "py_exception + real"
  lib_zcr_mean :: "py_exception + real"
  lib_mfcc1_mean :: "py_exception + real"

definition zero_features :: feature_vector where
  "zero_features =
     \<lparr> duration_seconds = 0, tempo_bpm = 0, rms_mean = 0, spectral_centroid_mean = 0,
       zero_crossing_rate_mean = 0, mfcc1_mean = 0 \<rparr>"

text \<open>
  \<open>compute_audio_features\<close> on the decoded buffer \<open>y\<close>. The statements run in the source's
  order; only the tempo estimate sits in a \<open>try ... except Exception\<close>.
\<close>

definition compute_audio_features ::
  "(real list \<Rightarrow> librosa_results) \<Rightarrow> real list \<Rightarrow> py_exception + feature_vector" where
  "compute_audio_features librosa y =
     (if y = [] then Inr zero_features
      else
        (case lib_duration (librosa y) of Inl e \<Rightarrow> Inl e | Inr duration \<Rightarrow>
        (let tempo = (case lib_tempo (librosa y) of Inl e \<Rightarrow> 0 | Inr t \<Rightarrow> t) in
        (case lib_rms_mean (librosa y) of Inl e \<Rightarrow> Inl e | Inr rms \<Rightarrow>
        (case lib_centroid_mean (librosa y) of Inl e \<Rightarrow> Inl e | Inr centroid \<Rightarrow>
        (case lib_zcr_mean (librosa y) of Inl e \<Rightarrow> Inl e | Inr zcr \<Rightarrow>
        (case lib_mfcc1_mean (librosa y) of Inl e \<Rightarrow> Inl e | Inr mfcc1 \<Rightarrow>
          Inr \<lparr> duration_seconds = duration, tempo_bpm = tempo, rms_mean = rms,
                spectral_centroid_mean = centroid, zero_crossing_rate_mean = zcr,
                mfcc1_mean = mfcc1 \<rparr>)))))))"

subsection \<open>_find_highest_rms_window_ms\<close>

text \<open>
  \<open>int(sr * (window_ms / 1000.0))\<close>, \<open>int(sr * 0.05)\<close> and \<open>int(1000.0 * best_start / sr)\<close>, each
  operation rounded as binary64 rounds it.
\<close>

definition float_window_samples :: "int \<Rightarrow> int \<Rightarrow> int" where
  "float_window_samples sr window_ms =
     py_int (round64 (py_float sr * round64 (py_float window_ms / 1000)))"

definition float_hop_samples :: "int \<Rightarrow> int" where
  "float_hop_samples sr = py_int (round64 (py_float sr * round64 (1 / 20)))"

definition float_start_ms :: "int \<Rightarrow> int \<Rightarrow> int" where
  "float_start_ms best_start sr =
     py_int (round64 (round64 (1000 * py_float best_start) / py_float sr))"

text \<open>
  \<open>int(a / b)\<close> for the exact quotient of integers \<open>a\<close>, \<open>b\<close>, truncated toward zero: what
  the three expressions would be without rounding. It serves to state properties; the
  functions of the model do not use it.
\<close>

definition trunc_quot :: "int \<Rightarrow> int \<Rightarrow> int" where
  "trunc_quot a b = sgn a * sgn b * (\<bar>a\<bar> div \<bar>b\<bar>)"

text \<open>
  The values of \<open>range(0, stop, step)\<close> for \<open>step \<noteq> 0\<close> (Python raises \<open>ValueError\<close> for
  \<open>step = 0\<close>; the caller below tests for it).
\<close>

definition py_range0 :: "int \<Rightarrow> int \<Rightarrow> int list" where
  "py_range0 stop step =
     (if 0 < step then map (\<lambda>k. int k * step) [0..<nat ((stop + step - 1) div step)]
      else if step < 0 then map (\<lambda>k. int k * step) [0..<nat ((- stop - step - 1) div (- step))]
      else [])"

text \<open>\<open>y[start : start + window_samples]\<close> for \<open>start \<ge> 0\<close>.\<close>

definition window :: "real list \<Rightarrow> int \<Rightarrow> nat \<Rightarrow> real list" where
  "window y start window_samples = take window_samples (drop (nat start) y)"


text \<open>
  The \<open>for start in range(...)\<close> loop with its state \<open>(best_start, best_rms)\<close>; the energy of a
  window is \<open>np_rms segment if segment.size else 0.0\<close>.
\<close>

definition window_rms :: "(real list \<Rightarrow> real) \<Rightarrow> real list \<Rightarrow> int \<Rightarrow> nat \<Rightarrow> real" where
  "window_rms np_rms y start window_samples =
     (let segment = window y start window_samples
      in if segment \<noteq> [] then np_rms segment else 0)"

fun scan_windows ::
  "(real list \<Rightarrow> real) \<Rightarrow> real list \<Rightarrow> nat \<Rightarrow> int list \<Rightarrow> int \<times> real \<Rightarrow> int \<times> real" where
  "scan_windows np_rms y window_samples [] (best_start, best_rms) = (best_start, best_rms)"
| "scan_windows np_rms y window_samples (start # starts) (best_start, best_rms) =
     (let rms = window_rms np_rms y start window_samples
      in if rms > best_rms then scan_windows np_rms y window_samples starts (start, rms)
         else scan_windows np_rms y window_samples starts (best_start, best_rms))"

definition find_highest_rms_window_ms ::
  "(real list \<Rightarrow> real) \<Rightarrow> real list \<Rightarrow> int \<Rightarrow> int \<Rightarrow> py_exception + int" where
  "find_highest_rms_window_ms np_rms y window_ms sr =
     (if y = [] then Inr 0
      else
        let window_samples = float_window_samples sr window_ms;
            hop_samples = float_hop_samples sr
        in if window_samples \<le> 0 \<or> window_samples \<ge> int (length y) then Inr 0
           else if hop_samples = 0 then Inl (ValueError ''range() arg 3 must not be zero'')
           else
             let (best_start, best_rms) =
                   scan_windows np_rms y (nat window_samples)
                     (py_range0 (int (length y) - window_samples + 1) hop_samples) (0, - 1)
             in Inr (float_start_ms best_start sr))"

subsection \<open>make_snippet\<close>

text \<open>
  \<open>math.ceil(snippet_ms / max(1, length_ms))\<close>: the quotient of the two integers, rounded
  to a float, then rounded up; and the looping of a segment shorter than \<open>snippet_ms\<close>.
\<close>

definition loop_count :: "int \<Rightarrow> int \<Rightarrow> int" where
  "loop_count snippet_ms length_ms = \<lceil>round64 (of_int snippet_ms / of_int (max 1 length_ms))\<rceil>"

definition looped_audio :: "segment \<Rightarrow> int \<Rightarrow> segment" where
  "looped_audio audio snippet_ms =
     (if seg_len audio < snippet_ms
      then seg_repeat audio (loop_count snippet_ms (seg_len audio))
      else audio)"

text \<open>
  \<open>rng.randint(0, max_start)\<close> of the generator \<open>random.Random(seed)\<close> is a parameter
  \<open>randint seed 0 max_start\<close>.
\<close>

definition random_start :: "(int option \<Rightarrow> int \<Rightarrow> int \<Rightarrow> int) \<Rightarrow> int option \<Rightarrow> int \<Rightarrow> int \<Rightarrow> int" where
  "random_start randint seed length_ms snippet_ms =
     (let max_start = max 0 (length_ms - snippet_ms)
      in if max_start > 0 then randint seed 0 max_start else 0)"

text \<open>
  The result of \<open>make_snippet\<close> up to the choice of the window: the looped segment, the start
  offset, and the second and third component of the returned tuple (the third is
  \<open>snippet_ms / 1000.0\<close>). pydub then slices \<open>audio[start_ms : start_ms + snippet_ms]\<close>, fades
  and exports it.
\<close>

record snippet =
  sn_audio :: segment
  sn_start_ms :: int
  sn_method :: string
  sn_length_seconds :: real

definition make_snippet ::
  "(int option \<Rightarrow> int \<Rightarrow> int \<Rightarrow> int) \<Rightarrow> (real list \<Rightarrow> real) \<Rightarrow> wav \<Rightarrow> int \<Rightarrow> string \<Rightarrow>
   int option \<Rightarrow> py_exception + snippet" where
  "make_snippet randint np_rms source_wav snippet_ms method seed =
     (let audio = looped_audio (pydub source_wav) snippet_ms;
          length_ms = seg_len audio;
          result = (\<lambda>start_ms. Inr \<lparr> sn_audio = audio, sn_start_ms = start_ms, sn_method = method,
                                   sn_length_seconds =
                                     real_of_rat (round64 (py_float snippet_ms / 1000)) \<rparr>)
      in if method = ''random'' then result (random_start randint seed length_ms snippet_ms)
         else if method = ''highest_rms'' then
           (case find_highest_rms_window_ms np_rms (librosa_y source_wav) snippet_ms 22050 of
              Inl e \<Rightarrow> Inl e
            | Inr start_ms \<Rightarrow> result (max 0 (min start_ms (max 0 (length_ms - snippet_ms)))))
         else result (random_start randint seed length_ms snippet_ms))"


section \<open>pipeline.py: main\<close>

text \<open>The parsed command line.\<close>

record config =
  arg_num_tracks :: int
  arg_seed :: int
  arg_model :: string
  arg_force :: bool
  arg_snippet_seconds :: int
  arg_snippet_method :: string

text \<open>One row of \<open>outputs/tracks.csv\<close>.\<close>

record ledger_row =
  row_song_id :: string
  row_prompt :: string
  row_model :: string
  row_model_version :: string
  row_audio_path :: string
  row_generation_time_seconds :: real
  row_snippet_path :: string
  row_snippet_method :: string
  row_snippet_length :: real
  row_features :: feature_vector

text \<open>
  The collaborators of a run: the remote service, the version that
  \<open>replicate_mod.models.get\<close> reports (\<open>None\<close> when it raises or reports none), the download
  and decoding of a locator, librosa, numpy's RMS of a segment, the generator behind
  \<open>random.Random(seed)\<close>, \<open>uuid.uuid4()\<close> and the time that \<open>time.perf_counter\<close> measures
  around the generation of a track.
\<close>

record environment =
  env_remote :: remote_service
  env_model_version :: "string \<Rightarrow> string option"
  env_fetch :: "string \<Rightarrow> py_exception + wav"
  env_librosa :: "real list \<Rightarrow> librosa_results"
  env_rms :: "real list \<Rightarrow> real"
  env_randint :: "int option \<Rightarrow> int \<Rightarrow> int \<Rightarrow> int"
  env_uuid4 :: "nat \<Rightarrow> string"
  env_elapsed :: "nat \<Rightarrow> real"

text \<open>
  The state a run changes: the calls of the remote service and their trace, the audio
  files under \<open>outputs/audio\<close>, the snippets exported under \<open>outputs/snippets\<close> and the
  ledger file (\<open>None\<close>: absent, or not readable by \<open>pd.read_csv\<close>).
\<close>

record world = run_state +
  audio_files :: "string \<rightharpoonup> wav"
  snippet_files :: "string \<rightharpoonup> snippet"
  csv :: "ledger_row list option"

text \<open>\<open>str(n)\<close> for a natural number and the format \<open>{n:02d}\<close>.\<close>

fun decimal :: "nat \<Rightarrow> string" where
  "decimal n = (if n < 10 then [''0123456789'' ! n]
                else decimal (n div 10) @ [''0123456789'' ! (n mod 10)])"

declare decimal.simps [simp del]

definition pad2 :: "nat \<Rightarrow> string" where
  "pad2 n = (if n < 10 then ''0'' @ decimal n else decimal n)"

definition audio_path_of :: "nat \<Rightarrow> string" where
  "audio_path_of idx = ''outputs/audio/song_'' @ pad2 (idx + 1) @ ''.wav''"

definition snippet_path_of :: "nat \<Rightarrow> string" where
  "snippet_path_of idx = ''outputs/snippets/song_'' @ pad2 (idx + 1) @ ''_snippet.wav''"

text \<open>
  \<open>round(gen_time, 3)\<close>: to the nearest multiple of \<open>1/1000\<close>, a tie to the even one.
\<close>

definition py_round3 :: "real \<Rightarrow> real" where
  "py_round3 x =
     (let t = x * 1000; f = \<lfloor>t\<rfloor>
      in real_of_int (if t - real_of_int f < 1 / 2 then f
                      else if 1 / 2 < t - real_of_int f then f + 1
                      else if even f then f else f + 1) / 1000)"

text \<open>
  The first branch of the loop body: the row of the loaded ledger whose \<open>audio_path\<close>
  matches (the first one, \<open>.iloc[0]\<close>), if a ledger was loaded and has one.
\<close>

definition recorded_row :: "ledger_row list option \<Rightarrow> string \<Rightarrow> ledger_row option" where
  "recorded_row existing audio_path =
     (case existing of
        None \<Rightarrow> None
      | Some rows \<Rightarrow> find (\<lambda>r. row_audio_path r = audio_path) rows)"

text \<open>
  The \<open>else\<close> branch: \<open>run_model\<close> with its default \<open>retries = 3\<close> and \<open>backoff = 2.0\<close>, the
  test \<open>if not urls\<close>, the download of the first locator.
\<close>

definition generate ::
  "environment \<Rightarrow> config \<Rightarrow> nat \<Rightarrow> string \<Rightarrow> world \<Rightarrow> (py_exception + real) \<times> world" where
  "generate E args idx prompt w =
     (case run_model (env_remote E) (arg_model args) prompt 3 2 w of
        (Inl e, w1) \<Rightarrow> (Inl e, w1)
      | (Inr urls, w1) \<Rightarrow>
          (if urls = [] then (Inl (RuntimeError ''No audio URLs returned by the model''), w1)
           else
             (case env_fetch E (hd urls) of
                Inl e \<Rightarrow> (Inl e, w1)
              | Inr audio \<Rightarrow>
                  (Inr (env_elapsed E idx),
                   w1\<lparr>audio_files := (audio_files w1)(audio_path_of idx \<mapsto> audio)\<rparr>))))"

text \<open>
  The part of the loop body after the \<open>if\<close>: features, snippet, row. Reading a file that
  does not exist raises.
\<close>

definition analyse ::
  "environment \<Rightarrow> config \<Rightarrow> string option \<Rightarrow> nat \<Rightarrow> string \<Rightarrow> real \<Rightarrow> world \<Rightarrow>
   (py_exception + ledger_row) \<times> world" where
  "analyse E args model_version idx prompt gen_time w =
     (case audio_files w (audio_path_of idx) of
        None \<Rightarrow> (Inl (FileNotFoundError (audio_path_of idx)), w)
      | Some source \<Rightarrow>
          (case compute_audio_features (env_librosa E) (librosa_y source) of
             Inl e \<Rightarrow> (Inl e, w)
           | Inr features \<Rightarrow>
               (case make_snippet (env_randint E) (env_rms E) source (arg_snippet_seconds args * 1000)
                       (arg_snippet_method args) (Some (arg_seed args + int idx)) of
                  Inl e \<Rightarrow> (Inl e, w)
                | Inr sn \<Rightarrow>
                    (Inr \<lparr> row_song_id = env_uuid4 E idx,
                           row_prompt = prompt,
                           row_model = arg_model args,
                           row_model_version = (case model_version of None \<Rightarrow> [] | Some v \<Rightarrow> v),
                           row_audio_path = audio_path_of idx,
                           row_generation_time_seconds = py_round3 gen_time,
                           row_snippet_path = snippet_path_of idx,
                           row_snippet_method = sn_method sn,
                           row_snippet_length = sn_length_seconds sn,
                           row_features = features \<rparr>,
                     w\<lparr>snippet_files := (snippet_files w)(snippet_path_of idx \<mapsto> sn)\<rparr>))))"

text \<open>The body of \<open>for idx, prompt in enumerate(prompts)\<close>.\<close>

definition process_track ::
  "environment \<Rightarrow> config \<Rightarrow> ledger_row list option \<Rightarrow> string option \<Rightarrow> nat \<Rightarrow> string \<Rightarrow> world \<Rightarrow>
   (py_exception + ledger_row) \<times> world" where
  "process_track E args existing model_version idx prompt w =
     (case recorded_row existing (audio_path_of idx) of
        Some r \<Rightarrow>
          analyse E args model_version idx prompt (row_generation_time_seconds r) w
      | None \<Rightarrow>
          (case generate E args idx prompt w of
             (Inl e, w1) \<Rightarrow> (Inl e, w1)
           | (Inr gen_time, w1) \<Rightarrow> analyse E args model_version idx prompt gen_time w1))"

fun run_tracks ::
  "environment \<Rightarrow> config \<Rightarrow> ledger_row list option \<Rightarrow> string option \<Rightarrow> (nat \<times> string) list \<Rightarrow>
   ledger_row list \<Rightarrow> world \<Rightarrow> (py_exception + ledger_row list) \<times> world" where
  "run_tracks E args existing model_version [] rows w = (Inr rows, w)"
| "run_tracks E args existing model_version ((idx, prompt) # rest) rows w =
     (case process_track E args existing model_version idx prompt w of
        (Inl e, w1) \<Rightarrow> (Inl e, w1)
      | (Inr row, w1) \<Rightarrow> run_tracks E args existing model_version rest (rows @ [row]) w1)"

text \<open>
  \<open>existing\<close>: the ledger is loaded only if the file is there (and readable) and the run is
  not forced.
\<close>

definition load_existing :: "config \<Rightarrow> world \<Rightarrow> ledger_row list option" where
  "load_existing args w = (if csv w \<noteq> None \<and> \<not> arg_force args then csv w else None)"

text \<open>
  \<open>main\<close>, from the credential check to the writing of the ledger. \<open>token\<close> is the value of
  \<open>REPLICATE_API_TOKEN\<close>; \<open>g\<close> is the state of the global random generator.
\<close>

definition main ::
  "'g py_random \<Rightarrow> environment \<Rightarrow> config \<Rightarrow> string option \<Rightarrow> 'g \<Rightarrow> world \<Rightarrow>
   (py_exception + ledger_row list) \<times> world" where
  "main R E args token g w =
     (if token = None \<or> token = Some [] then
        (Inl (RuntimeError ''REPLICATE_API_TOKEN not set. Create .env or export the variable.''), w)
      else
        (case fst (sample_prompts R g (arg_num_tracks args) (arg_seed args)) of
           Inl e \<Rightarrow> (Inl e, w)
         | Inr prompts \<Rightarrow>
             (case run_tracks E args (load_existing args w) (env_model_version E (arg_model args))
                     (enumerate 0 prompts) [] w of
                (Inl e, w1) \<Rightarrow> (Inl e, w1)
              | (Inr rows, w1) \<Rightarrow> (Inr rows, w1\<lparr>csv := Some rows\<rparr>))))"

section \<open>Notions used to state the properties of run_model\<close>



text \<open>
  The specification's reading of output normalization: an ordered list of extraction
  strategies, each for one shape of response, of which the first that succeeds wins.
\<close>

definition bare_string :: "py_value \<Rightarrow> string list option" where
  "bare_string out = (case out of PStr s \<Rightarrow> Some [s] | _ \<Rightarrow> None)"

definition list_of_strings :: "py_value \<Rightarrow> string list option" where
  "list_of_strings out = (case out of PList xs \<Rightarrow> Some (str_entries xs) | _ \<Rightarrow> None)"

definition mapping_known_key :: "py_value \<Rightarrow> string list option" where
  "mapping_known_key out =
     (case out of
        PDict d \<Rightarrow>
          map_option (\<lambda>s. [s]) (first_str_under d [''audio'', ''audio_url'', ''output'', ''url''])
      | _ \<Rightarrow> None)"

definition mapping_nested_list :: "py_value \<Rightarrow> string list option" where
  "mapping_nested_list out =
     (case out of PDict d \<Rightarrow> first_list_under d [''audio'', ''output''] | _ \<Rightarrow> None)"

definition locator_object :: "py_value \<Rightarrow> string list option" where
  "locator_object out = (case out of PObject (UrlReturns u) \<Rightarrow> Some [u] | _ \<Rightarrow> None)"

fun first_success ::
  "(py_value \<Rightarrow> string list option) list \<Rightarrow> py_value \<Rightarrow> string list option" where
  "first_success [] out = None"
| "first_success (strategy # strategies) out =
     (case strategy out of Some urls \<Rightarrow> Some urls | None \<Rightarrow> first_success strategies out)"

definition normalize_output :: "py_value \<Rightarrow> string list option" where
  "normalize_output = first_success
     [bare_string, list_of_strings, mapping_known_key, mapping_nested_list, locator_object]"


definition always_raises :: remote_service where
  "always_raises mv input_data k = RemoteRaises (CollaboratorError (decimal k))"

definition always_falsy :: remote_service where
  "always_falsy mv input_data k = RemoteRaises (FalsyError ''empty'')"


definition fresh_run :: run_state where
  "fresh_run = \<lparr> calls = 0, trace = [] \<rparr>"

definition list_without_strings :: remote_service where
  "list_without_strings mv input_data k = RemoteReturns (PList [PNone, PObject NoUrl])"

section \<open>Collaborators and inputs for evaluation\<close>

definition tempo_fails :: "real list \<Rightarrow> librosa_results" where
  "tempo_fails y =
     \<lparr> lib_duration = Inr (real (length y) / 22050),
       lib_tempo = Inl (CollaboratorError ''no beats''),
       lib_rms_mean = Inr (1 / 10),
       lib_centroid_mean = Inr 1500,
       lib_zcr_mean = Inr (1 / 20),
       lib_mfcc1_mean = Inr (- 200) \<rparr>"

definition rms_fails :: "real list \<Rightarrow> librosa_results" where
  "rms_fails y =
     \<lparr> lib_duration = Inr (real (length y) / 22050),
       lib_tempo = Inr 120,
       lib_rms_mean = Inl (CollaboratorError ''rms''),
       lib_centroid_mean = Inr 1500,
       lib_zcr_mean = Inr (1 / 20),
       lib_mfcc1_mean = Inr (- 200) \<rparr>"

text \<open>The RMS without rounding, in the place of numpy's.\<close>

definition exact_rms :: "real list \<Rightarrow> real" where
  "exact_rms segment = sqrt (sum_list (map (\<lambda>x. x\<^sup>2) segment) / real (length segment))"

text \<open>
  A track of 2205 frames (100 ms) whose second half is loud, and a track of 1125 frames
  (51 ms) with a loud end; both at 22050 frames per second, so that the analysis buffer
  has one sample per frame.
\<close>

definition short_track :: wav where
  "short_track =
     \<lparr> pydub = \<lparr> seg_frames = 2205, seg_rate = 22050 \<rparr>,
       librosa_y = replicate 1103 0 @ replicate 1102 1 \<rparr>"


definition demo_env :: "remote_service \<Rightarrow> environment" where
  "demo_env remote =
     \<lparr> env_remote = remote,
       env_model_version = (\<lambda>m. Some ''v1''),
       env_fetch = (\<lambda>url. Inr short_track),
       env_librosa = tempo_fails,
       env_rms = exact_rms,
       env_randint = (\<lambda>seed lo hi. lo),
       env_uuid4 = (\<lambda>k. ''id-'' @ decimal k),
       env_elapsed = (\<lambda>k. 5 / 4) \<rparr>"

definition demo_args :: config where
  "demo_args =
     \<lparr> arg_num_tracks = 1, arg_seed = 42, arg_model = ''m'', arg_force = False,
       arg_snippet_seconds = 15, arg_snippet_method = ''highest_rms'' \<rparr>"

definition empty_world :: world where
  "empty_world =
     \<lparr> calls = 0, trace = [], audio_files = Map.empty, snippet_files = Map.empty, csv = None \<rparr>"

text \<open>
  The state after an earlier run of one track: its audio file and a ledger with its row.
\<close>

definition earlier_row :: ledger_row where
  "earlier_row =
     \<lparr> row_song_id = ''id-earlier'', row_prompt = ''p'', row_model = ''m'',
       row_model_version = ''v0'', row_audio_path = ''outputs/audio/song_01.wav'',
       row_generation_time_seconds = 7 / 2,
       row_snippet_path = ''outputs/snippets/song_01_snippet.wav'',
       row_snippet_method = ''random'', row_snippet_length = 15,
       row_features = zero_features \<rparr>"

definition resumed_world :: world where
  "resumed_world =
     \<lparr> calls = 0, trace = [],
       audio_files = [''outputs/audio/song_01.wav'' \<mapsto> short_track],
       snippet_files = Map.empty,
       csv = Some [earlier_row] \<rparr>"

text \<open>
  The same state with a ledger whose recorded time has four decimals: \<open>0.0625\<close>, which
  binary64 holds exactly.
\<close>

definition coarse_row :: ledger_row where
  "coarse_row = earlier_row\<lparr>row_generation_time_seconds := 1 / 16\<rparr>"

definition coarse_world :: world where
  "coarse_world = resumed_world\<lparr>csv := Some [coarse_row]\<rparr>"

section \<open>Properties of prompts.py\<close>

lemma length_PROMPT_POOL: "length PROMPT_POOL = 30"
  by (simp add: PROMPT_POOL_def)

lemma distinct_PROMPT_POOL: "distinct PROMPT_POOL"
  unfolding PROMPT_POOL_def by simp

lemma counter_random_contract: "random_contract counter_random"
  by (auto simp: random_contract_def counter_random_def dest: in_set_takeD)

lemma sample_prompts_seeded:
  "fst (sample_prompts R g n seed) = fst (sample_prompts R g' n seed)"
  by (simp add: sample_prompts_def)

lemma distinct_map_nth_pool:
  assumes "distinct js" "\<forall>j\<in>set js. j < length PROMPT_POOL"
  shows "distinct (map (\<lambda>j. PROMPT_POOL ! j) js)"
proof -
  have "inj_on (\<lambda>j. PROMPT_POOL ! j) (set js)"
    using assms(2) distinct_PROMPT_POOL by (auto simp: inj_on_def nth_eq_iff_index_eq)
  with assms(1) show ?thesis by (simp add: distinct_map)
qed

text \<open>
  C7. For \<open>0 \<le> n \<le> 30\<close> and a generator that keeps the documented contract of
  \<open>random.sample\<close>, \<open>sample_prompts(n, seed)\<close> returns \<open>n\<close> pairwise distinct prompts, all
  from the pool. For every \<open>n\<close> and \<open>seed\<close> the result does not depend on the state of the
  global generator before the call (the call seeds it first), so two calls with the same
  arguments return the same sequence.
\<close>

theorem sample_prompts_distinct_and_deterministic:
  "(random_contract R \<and> 0 \<le> n \<and> n \<le> 30 \<longrightarrow>
      (\<exists>ps. fst (sample_prompts R g n seed) = Inr ps \<and> int (length ps) = n \<and>
            distinct ps \<and> set ps \<subseteq> set PROMPT_POOL)) \<and>
   fst (sample_prompts R g n seed) = fst (sample_prompts R g' n seed)"
proof (intro conjI impI)
  assume h: "random_contract R \<and> 0 \<le> n \<and> n \<le> 30"
  define js where "js = fst (sample_positions R (seed_state R seed) (length PROMPT_POOL) (nat n))"
  from h have k: "nat n \<le> length PROMPT_POOL"
    by (simp add: length_PROMPT_POOL nat_le_iff)
  from h k have len: "length js = nat n" and dist: "distinct js"
    and bound: "\<forall>j\<in>set js. j < length PROMPT_POOL"
    unfolding js_def random_contract_def by blast+
  have res: "fst (sample_prompts R g n seed) = Inr (map (\<lambda>j. PROMPT_POOL ! j) js)"
    using h by (simp add: sample_prompts_def length_PROMPT_POOL js_def split: prod.splits)
  have "distinct (map (\<lambda>j. PROMPT_POOL ! j) js)"
    using dist bound by (rule distinct_map_nth_pool)
  moreover have "set (map (\<lambda>j. PROMPT_POOL ! j) js) \<subseteq> set PROMPT_POOL"
    using bound by auto
  moreover have "int (length (map (\<lambda>j. PROMPT_POOL ! j) js)) = n"
    using len h by simp
  ultimately show "\<exists>ps. fst (sample_prompts R g n seed) = Inr ps \<and> int (length ps) = n \<and>
            distinct ps \<and> set ps \<subseteq> set PROMPT_POOL"
    using res by blast
next
  show "fst (sample_prompts R g n seed) = fst (sample_prompts R g' n seed)"
    by (rule sample_prompts_seeded)
qed

theorem sample_prompts_distinct_and_deterministic_witness:
  "random_contract counter_random \<and> (0::int) \<le> 3 \<and> (3::int) \<le> 30 \<and>
   (\<exists>ps. fst (sample_prompts counter_random 7 3 42) = Inr ps \<and> int (length ps) = 3 \<and>
            distinct ps \<and> set ps \<subseteq> set PROMPT_POOL) \<and>
   fst (sample_prompts counter_random 7 3 42) = fst (sample_prompts counter_random 0 3 42)"
proof -
  have h: "random_contract counter_random \<and> (0::int) \<le> 3 \<and> (3::int) \<le> 30"
    using counter_random_contract by simp
  from sample_prompts_distinct_and_deterministic [of counter_random 3 7 42 0] h
  show ?thesis by blast
qed

text \<open>
  C8, as stated, fails for a negative \<open>num\<close>: the guard \<open>num <= len(PROMPT_POOL)\<close> holds,
  and \<open>random.sample\<close> rejects a negative sample size.
\<close>

theorem sample_prompts_negative_raises:
  "fst (sample_prompts counter_random 0 (- 1) 42) =
     Inl (ValueError ''Sample larger than population or is negative'')"
  by (simp add: sample_prompts_def length_PROMPT_POOL)

text \<open>
  C8, amended. \<open>sample_prompts(0, seed)\<close> returns the empty sequence for every seed, and for
  every \<open>n < 0\<close> the call raises \<open>ValueError\<close>.
\<close>

theorem sample_prompts_zero_or_negative:
  "(random_contract R \<longrightarrow> fst (sample_prompts R g 0 seed) = Inr []) \<and>
   (n < 0 \<longrightarrow> fst (sample_prompts R g n seed) =
       Inl (ValueError ''Sample larger than population or is negative''))"
proof (intro conjI impI)
  assume "random_contract R"
  then have "length (fst (sample_positions R (seed_state R seed) (length PROMPT_POOL) 0)) = 0"
    unfolding random_contract_def by blast
  then have "fst (sample_positions R (seed_state R seed) (length PROMPT_POOL) 0) = []"
    by simp
  then show "fst (sample_prompts R g 0 seed) = Inr []"
    by (auto simp: sample_prompts_def split: prod.splits)
next
  assume "n < 0"
  then show "fst (sample_prompts R g n seed) =
       Inl (ValueError ''Sample larger than population or is negative'')"
    by (simp add: sample_prompts_def)
qed

theorem sample_prompts_zero_or_negative_witness:
  "random_contract counter_random \<and> fst (sample_prompts counter_random 5 0 42) = Inr [] \<and>
   (- 2 :: int) < 0 \<and> fst (sample_prompts counter_random 5 (- 2) 42) =
       Inl (ValueError ''Sample larger than population or is negative'')"
proof -
  have neg: "(- 2 :: int) < 0" by simp
  from sample_prompts_zero_or_negative [of counter_random 5 42 "- 2"] counter_random_contract neg
  show ?thesis by blast
qed

section \<open>Properties of run_model\<close>









text \<open>
  With a negative \<open>backoff\<close> the sleep of the first failed attempt raises, and an exception
  that tests false is not re-raised after the loop.
\<close>

lemma run_model_negative_backoff:
  "run_model always_raises ''m'' ''p'' 3 (- 1) fresh_run =
     (Inl (ValueError ''sleep length must be non-negative''),
      \<lparr>calls = 1, trace = [Called ''m'', Warned 1 3 (CollaboratorError ''0'')]\<rparr>)"
  by (simp add: run_model_def build_request_def always_raises_def fresh_run_def upto_rec1
      decimal.simps)

lemma run_model_falsy_exception:
  "fst (run_model always_falsy ''m'' ''p'' 2 0 fresh_run) =
     Inl (RuntimeError ''Model did not return a usable audio URL'')"
  by (simp add: run_model_def build_request_def always_falsy_def fresh_run_def upto_rec1)



lemma handle_output_normalize:
  assumes "\<forall>e. out \<noteq> PObject (UrlRaises e)"
  shows "handle_output out = (case normalize_output out of Some urls \<Rightarrow> Returned urls | None \<Rightarrow> SoftFail)"
proof (cases out)
  case PNone
  then show ?thesis
    by (simp add: normalize_output_def bare_string_def list_of_strings_def mapping_known_key_def
        mapping_nested_list_def locator_object_def)
next
  case (PStr s)
  then show ?thesis
    by (simp add: normalize_output_def bare_string_def)
next
  case (PList xs)
  then show ?thesis
    by (simp add: normalize_output_def bare_string_def list_of_strings_def)
next
  case (PDict d)
  then show ?thesis
    by (simp add: normalize_output_def bare_string_def list_of_strings_def mapping_known_key_def
        mapping_nested_list_def locator_object_def split: option.splits)
next
  case (PObject u)
  with assms show ?thesis
    by (cases u) (simp_all add: normalize_output_def bare_string_def list_of_strings_def
        mapping_known_key_def mapping_nested_list_def locator_object_def)
qed

text \<open>
  C4. Where nothing raises, the \<open>try\<close> body agrees with the ordered strategies: bare string,
  list filtered to its strings, mapping with a string under a known key, mapping with a
  list under \<open>audio\<close> or \<open>output\<close>, object with a \<open>url\<close> method; the first that succeeds gives
  the returned list of strings. If none matches, the attempt is a soft failure: the loop
  goes on with the next attempt, nothing is raised and no error is recorded.
\<close>

theorem output_shapes_in_priority_order:
  "((\<forall>e. out \<noteq> PObject (UrlRaises e)) \<longrightarrow>
      handle_output out = (case normalize_output out of Some urls \<Rightarrow> Returned urls | None \<Rightarrow> SoftFail)) \<and>
   (run (calls s) = RemoteReturns out \<and> (\<forall>e. out \<noteq> PObject (UrlRaises e)) \<and> normalize_output out = None \<longrightarrow>
      run_attempts run mv retries backoff last_err (attempt # rest) s =
        run_attempts run mv retries backoff last_err rest
          (s\<lparr>calls := Suc (calls s), trace := trace s @ [Called mv]\<rparr>))"
proof (intro conjI impI)
  assume "\<forall>e. out \<noteq> PObject (UrlRaises e)"
  then show "handle_output out = (case normalize_output out of Some urls \<Rightarrow> Returned urls | None \<Rightarrow> SoftFail)"
    by (rule handle_output_normalize)
next
  assume h: "run (calls s) = RemoteReturns out \<and> (\<forall>e. out \<noteq> PObject (UrlRaises e)) \<and>
    normalize_output out = None"
  then have "handle_output out = SoftFail"
    using handle_output_normalize [of out] by simp
  with h show "run_attempts run mv retries backoff last_err (attempt # rest) s =
        run_attempts run mv retries backoff last_err rest
          (s\<lparr>calls := Suc (calls s), trace := trace s @ [Called mv]\<rparr>)"
    by simp
qed






theorem output_shapes_in_priority_order_witness:
  "handle_output (PDict [(''output'', PList [PStr ''u1'', PNone, PStr ''u2'']), (''url'', PStr ''x'')])
     = Returned [''x''] \<and>
   handle_output (PDict [(''output'', PList [PStr ''u1'', PNone, PStr ''u2'']), (''url'', PNone)])
     = Returned [''u1'', ''u2''] \<and>
   run_attempts (\<lambda>k. if k = 0 then RemoteReturns (PObject UrlNotCallable) else RemoteReturns (PStr ''u''))
      ''m'' 3 2 None [1, 2, 3] fresh_run =
     (Inr [''u''], \<lparr>calls = 2, trace = [Called ''m'', Called ''m'']\<rparr>)"
proof -
  let ?run = "\<lambda>k::nat. if k = 0 then RemoteReturns (PObject UrlNotCallable) else RemoteReturns (PStr ''u'')"
  have a: "\<forall>e. PDict [(''output'', PList [PStr ''u1'', PNone, PStr ''u2'']), (''url'', PStr ''x'')]
             \<noteq> PObject (UrlRaises e)"
    by simp
  have b: "\<forall>e. PDict [(''output'', PList [PStr ''u1'', PNone, PStr ''u2'']), (''url'', PNone)]
             \<noteq> PObject (UrlRaises e)"
    by simp
  have c: "?run (calls fresh_run) = RemoteReturns (PObject UrlNotCallable) \<and>
           (\<forall>e. PObject UrlNotCallable \<noteq> PObject (UrlRaises e)) \<and>
           normalize_output (PObject UrlNotCallable) = None"
    by (simp add: fresh_run_def normalize_output_def bare_string_def list_of_strings_def
        mapping_known_key_def mapping_nested_list_def locator_object_def)
  have n1: "normalize_output (PDict [(''output'', PList [PStr ''u1'', PNone, PStr ''u2'']), (''url'', PStr ''x'')])
              = Some [''x'']"
    by (simp add: normalize_output_def bare_string_def list_of_strings_def
        mapping_known_key_def mapping_nested_list_def locator_object_def)
  have n2: "normalize_output (PDict [(''output'', PList [PStr ''u1'', PNone, PStr ''u2'']), (''url'', PNone)])
              = Some [''u1'', ''u2'']"
    by (simp add: normalize_output_def bare_string_def list_of_strings_def
        mapping_known_key_def mapping_nested_list_def locator_object_def)
  from output_shapes_in_priority_order
         [of "PDict [(''output'', PList [PStr ''u1'', PNone, PStr ''u2'']), (''url'', PStr ''x'')]"
             ?run fresh_run "''m''" 3 2 None 1 "[2, 3]"] a n1
  have r1: "handle_output (PDict [(''output'', PList [PStr ''u1'', PNone, PStr ''u2'']), (''url'', PStr ''x'')])
     = Returned [''x'']"
    by simp
  from output_shapes_in_priority_order
         [of "PDict [(''output'', PList [PStr ''u1'', PNone, PStr ''u2'']), (''url'', PNone)]"
             ?run fresh_run "''m''" 3 2 None 1 "[2, 3]"] b n2
  have r2: "handle_output (PDict [(''output'', PList [PStr ''u1'', PNone, PStr ''u2'']), (''url'', PNone)])
     = Returned [''u1'', ''u2'']"
    by simp
  from output_shapes_in_priority_order [of "PObject UrlNotCallable" ?run fresh_run "''m''" 3 2 None 1 "[2, 3]"] c
  have "run_attempts ?run ''m'' 3 2 None [1, 2, 3] fresh_run =
          run_attempts ?run ''m'' 3 2 None [2, 3]
            (fresh_run\<lparr>calls := Suc (calls fresh_run), trace := trace fresh_run @ [Called ''m'']\<rparr>)"
    by blast
  then have r3: "run_attempts ?run ''m'' 3 2 None [1, 2, 3] fresh_run =
     (Inr [''u''], \<lparr>calls = 2, trace = [Called ''m'', Called ''m'']\<rparr>)"
    by (simp add: fresh_run_def)
  from r1 r2 r3 show ?thesis by blast
qed

text \<open>
  C9. At any attempt, a response that is a list without string entries (the empty list
  among them) makes \<open>run_model\<close> return the empty list at once: the remaining attempts are
  not made and nothing is raised. When this happens at the first attempt of a track that
  is not in the ledger, the loop body of \<open>main\<close> raises "No audio URLs returned by the
  model" after that single remote call.
\<close>

theorem empty_list_returned_as_success:
  "(run (calls s) = RemoteReturns (PList xs) \<and> str_entries xs = [] \<longrightarrow>
      run_attempts run mv retries backoff last_err (attempt # rest) s =
        (Inr [], s\<lparr>calls := Suc (calls s), trace := trace s @ [Called mv]\<rparr>)) \<and>
   (recorded_row existing (audio_path_of idx) = None \<and>
    build_request (arg_model args) prompt = (mv, input_data) \<and>
    env_remote E mv input_data (calls w) = RemoteReturns (PList xs) \<and> str_entries xs = [] \<longrightarrow>
      run_model (env_remote E) (arg_model args) prompt 3 2 w =
        (Inr [], w\<lparr>calls := Suc (calls w), trace := trace w @ [Called mv]\<rparr>) \<and>
      process_track E args existing model_version idx prompt w =
        (Inl (RuntimeError ''No audio URLs returned by the model''),
         w\<lparr>calls := Suc (calls w), trace := trace w @ [Called mv]\<rparr>))"
proof (intro conjI impI)
  assume "run (calls s) = RemoteReturns (PList xs) \<and> str_entries xs = []"
  then show "run_attempts run mv retries backoff last_err (attempt # rest) s =
        (Inr [], s\<lparr>calls := Suc (calls s), trace := trace s @ [Called mv]\<rparr>)"
    by simp
next
  assume h: "recorded_row existing (audio_path_of idx) = None \<and>
    build_request (arg_model args) prompt = (mv, input_data) \<and>
    env_remote E mv input_data (calls w) = RemoteReturns (PList xs) \<and> str_entries xs = []"
  then show run: "run_model (env_remote E) (arg_model args) prompt 3 2 w =
        (Inr [], w\<lparr>calls := Suc (calls w), trace := trace w @ [Called mv]\<rparr>)"
    by (simp add: run_model_def upto_rec1)
  from h show "process_track E args existing model_version idx prompt w =
        (Inl (RuntimeError ''No audio URLs returned by the model''),
         w\<lparr>calls := Suc (calls w), trace := trace w @ [Called mv]\<rparr>)"
    by (simp add: process_track_def generate_def run)
qed


theorem empty_list_returned_as_success_witness:
  "run_model list_without_strings ''m'' ''p'' 3 2 empty_world =
     (Inr [], empty_world\<lparr>calls := 1, trace := [Called ''m'']\<rparr>) \<and>
   process_track (demo_env list_without_strings) demo_args None (Some ''v1'') 0 ''p'' empty_world =
     (Inl (RuntimeError ''No audio URLs returned by the model''),
      empty_world\<lparr>calls := 1, trace := [Called ''m'']\<rparr>)"
proof -
  have h: "recorded_row None (audio_path_of 0) = None \<and>
    build_request (arg_model demo_args) ''p'' = (''m'', [(''prompt'', ''p'')]) \<and>
    env_remote (demo_env list_without_strings) ''m'' [(''prompt'', ''p'')] (calls empty_world) =
      RemoteReturns (PList [PNone, PObject NoUrl]) \<and>
    str_entries [PNone, PObject NoUrl] = []"
    by (simp add: recorded_row_def build_request_def demo_args_def demo_env_def
        list_without_strings_def)
  from empty_list_returned_as_success
         [where xs = "[PNone, PObject NoUrl]" and mv = "''m''" and existing = None and idx = 0
            and args = demo_args and prompt = "''p''" and input_data = "[(''prompt'', ''p'')]"
            and E = "demo_env list_without_strings" and w = empty_world
            and model_version = "Some ''v1''", THEN conjunct2, THEN mp, OF h]
  show ?thesis
    by (simp add: demo_env_def demo_args_def empty_world_def)
qed

section \<open>Properties of compute_audio_features\<close>

text \<open>
  C5, as stated, fails: on a non-empty buffer a failure of the RMS computation is not
  degraded to \<open>0.0\<close>; it ends the whole extraction with that exception.
\<close>

theorem rms_failure_aborts:
  "compute_audio_features rms_fails [1 / 2] = Inl (CollaboratorError ''rms'')"
  by (simp add: compute_audio_features_def rms_fails_def)

text \<open>
  C5, amended. For a non-empty buffer on which the five computations other than the tempo
  estimate succeed, all six fields are present with their computed values, and a failure
  of the tempo estimate degrades only \<open>tempo_bpm\<close> to \<open>0.0\<close>.
\<close>

theorem tempo_failure_is_isolated:
  "y \<noteq> [] \<and> lib_duration (librosa y) = Inr d \<and> lib_rms_mean (librosa y) = Inr r \<and>
   lib_centroid_mean (librosa y) = Inr c \<and> lib_zcr_mean (librosa y) = Inr z \<and>
   lib_mfcc1_mean (librosa y) = Inr m \<Longrightarrow>
   compute_audio_features librosa y =
     Inr \<lparr> duration_seconds = d,
           tempo_bpm = (case lib_tempo (librosa y) of Inl e \<Rightarrow> 0 | Inr t \<Rightarrow> t),
           rms_mean = r, spectral_centroid_mean = c, zero_crossing_rate_mean = z,
           mfcc1_mean = m \<rparr>"
proof -
  assume h: "y \<noteq> [] \<and> lib_duration (librosa y) = Inr d \<and> lib_rms_mean (librosa y) = Inr r \<and>
   lib_centroid_mean (librosa y) = Inr c \<and> lib_zcr_mean (librosa y) = Inr z \<and>
   lib_mfcc1_mean (librosa y) = Inr m"
  show ?thesis
  proof (cases "lib_tempo (librosa y)")
    case (Inl e)
    with h show ?thesis by (simp add: compute_audio_features_def)
  next
    case (Inr t)
    with h show ?thesis by (simp add: compute_audio_features_def)
  qed
qed

theorem tempo_failure_is_isolated_witness:
  "lib_tempo (tempo_fails [1 / 2]) = Inl (CollaboratorError ''no beats'') \<and>
   compute_audio_features tempo_fails [1 / 2] =
     Inr \<lparr> duration_seconds = 1 / 22050, tempo_bpm = 0, rms_mean = 1 / 10,
           spectral_centroid_mean = 1500, zero_crossing_rate_mean = 1 / 20,
           mfcc1_mean = - 200 \<rparr>"
proof -
  have h: "[1 / 2 :: real] \<noteq> [] \<and> lib_duration (tempo_fails [1 / 2]) = Inr (1 / 22050) \<and>
    lib_rms_mean (tempo_fails [1 / 2]) = Inr (1 / 10) \<and>
    lib_centroid_mean (tempo_fails [1 / 2]) = Inr 1500 \<and>
    lib_zcr_mean (tempo_fails [1 / 2]) = Inr (1 / 20) \<and>
    lib_mfcc1_mean (tempo_fails [1 / 2]) = Inr (- 200)"
    by (simp add: tempo_fails_def)
  have t: "lib_tempo (tempo_fails [1 / 2]) = Inl (CollaboratorError ''no beats'')"
    by (simp add: tempo_fails_def)
  from tempo_failure_is_isolated
         [where y = "[1 / 2]" and librosa = tempo_fails and d = "1 / 22050" and r = "1 / 10"
            and c = 1500 and z = "1 / 20" and m = "- 200"] h t
  show ?thesis by simp
qed

section \<open>Properties of binary64 rounding\<close>

lemma round_half_even_error:
  "\<bar>of_int (round_half_even r) - r\<bar> \<le> 1 / 2"
proof -
  have "of_int \<lfloor>r\<rfloor> \<le> r" "r < of_int \<lfloor>r\<rfloor> + 1" by linarith+
  then show ?thesis
    by (auto simp: round_half_even_def Let_def)
qed

lemma binary_exponent_le:
  assumes "0 < x"
  shows "2 powi (binary_exponent x) \<le> x"
proof -
  obtain n d where q: "quotient_of x = (n, d)" by (cases "quotient_of x")
  then have d: "0 < d" by (rule quotient_of_denom_pos)
  from q have x: "x = of_int n / of_int d" by (rule quotient_of_div)
  with assms d have n: "0 < n" by (simp add: zero_less_divide_iff)
  let ?k = "bitlen n - bitlen d"
  show ?thesis
  proof (cases "(2::rat) powi ?k \<le> x")
    case True
    then show ?thesis by (simp add: binary_exponent_def q)
  next
    case False
    from bitlen_bounds [OF n] have lo: "2 ^ nat (bitlen n - 1) \<le> n" by simp
    from bitlen_bounds [OF d] have hi: "d < 2 ^ nat (bitlen d)" by simp
    from n have bn: "1 \<le> bitlen n" by (auto simp: bitlen_alt_def)
    have bd: "0 \<le> bitlen d" by (rule bitlen_nonneg)
    have lo': "(2::rat) powi (bitlen n - 1) \<le> of_int n"
    proof -
      have "(2::rat) powi (bitlen n - 1) = 2 ^ nat (bitlen n - 1)"
        using bn by (simp add: power_int_def)
      also have "\<dots> = of_int (2 ^ nat (bitlen n - 1))" by simp
      also have "\<dots> \<le> of_int n" using lo by (simp only: of_int_le_iff)
      finally show ?thesis .
    qed
    have hi': "of_int d \<le> (2::rat) powi (bitlen d)"
    proof -
      have "(of_int d :: rat) \<le> of_int (2 ^ nat (bitlen d))"
        using hi by (simp only: of_int_le_iff)
      also have "\<dots> = 2 ^ nat (bitlen d)" by simp
      also have "\<dots> = (2::rat) powi (bitlen d)"
        using bd by (simp add: power_int_def)
      finally show ?thesis .
    qed
    have "(2::rat) powi (?k - 1) = 2 powi (bitlen n - 1) / 2 powi (bitlen d)"
      by (simp add: power_int_diff)
    also have "\<dots> \<le> of_int n / of_int d"
      using lo' hi' d n by (intro frac_le) simp_all
    finally have "(2::rat) powi (?k - 1) \<le> x" by (simp only: x)
    then show ?thesis
      using False by (simp add: binary_exponent_def q)
  qed
qed

lemma round64_error_pos:
  assumes "0 < x"
  shows "\<bar>round64 x - x\<bar> \<le> x / 2 ^ 53"
proof -
  let ?e = "binary_exponent x - 52"
  let ?s = "(2::rat) powi ?e"
  let ?m = "round_half_even (x / ?s)"
  have s: "0 < ?s" by simp
  have r: "round64 x = of_int ?m * ?s"
    using assms by (simp add: round64_def Let_def)
  have "\<bar>of_int ?m * ?s - x\<bar> = \<bar>of_int ?m - x / ?s\<bar> * ?s"
  proof -
    have "of_int ?m * ?s - x = (of_int ?m - x / ?s) * ?s"
      using s by (simp add: field_simps)
    then show ?thesis using s by (simp add: abs_mult)
  qed
  also have "\<dots> \<le> 1 / 2 * ?s"
    using round_half_even_error [of "x / ?s"] s by (intro mult_right_mono) simp_all
  also have "\<dots> \<le> x / 2 ^ 53"
  proof -
    have "?s * 2 ^ 52 = 2 powi (binary_exponent x)"
    proof -
      have "(2::rat) powi (binary_exponent x) = 2 powi (?e + 52)" by simp
      also have "\<dots> = ?s * 2 powi 52" by (rule power_int_add) simp
      finally show ?thesis by simp
    qed
    with binary_exponent_le [OF assms] have "?s * 2 ^ 52 \<le> x" by simp
    then show ?thesis by (simp add: field_simps)
  qed
  finally show ?thesis by (simp add: r)
qed

lemma round64_bounds:
  assumes "0 \<le> x"
  shows "x - x / 2 ^ 53 \<le> round64 x" "round64 x \<le> x + x / 2 ^ 53"
proof -
  have "\<bar>round64 x - x\<bar> \<le> x / 2 ^ 53"
  proof (cases "x = 0")
    case True
    then show ?thesis by (simp add: round64_def)
  next
    case False
    with assms have "0 < x" by simp
    then show ?thesis by (rule round64_error_pos)
  qed
  then show "x - x / 2 ^ 53 \<le> round64 x" "round64 x \<le> x + x / 2 ^ 53"
    by linarith+
qed

lemma round64_nonneg: "0 \<le> x \<Longrightarrow> 0 \<le> round64 x"
proof -
  assume x: "0 \<le> x"
  have "x / 2 ^ 53 \<le> x" using x by (simp add: field_simps)
  with round64_bounds(1) [OF x] show ?thesis by linarith
qed

text \<open>Values of the float expressions, as Python computes them.\<close>

lemma py_float_22050: "py_float 22050 = 22050" by code_simp
lemma hop_22050: "float_hop_samples 22050 = 1102" by code_simp
lemma window_700: "float_window_samples 22050 700 = 15434" by code_simp
lemma window_15000: "float_window_samples 22050 15000 = 330750" by code_simp
lemma start_0: "float_start_ms 0 sr = 0" by (simp add: float_start_ms_def py_float_def round64_def py_int_def)
lemma len_short: "seg_len \<lparr> seg_frames = 2205, seg_rate = 22050 \<rparr> = 100" by code_simp
lemma len_2196: "seg_len \<lparr> seg_frames = 2196, seg_rate = 22050 \<rparr> = 100" by code_simp
lemma len_4392: "seg_len \<lparr> seg_frames = 4392, seg_rate = 22050 \<rparr> = 199" by code_simp
lemma loops_15000: "loop_count 15000 100 = 150" by code_simp


section \<open>Properties of make_snippet with method highest_rms\<close>





lemma py_range0_single: "0 < stop \<Longrightarrow> stop \<le> step \<Longrightarrow> py_range0 stop step = [0]"
proof -
  assume a: "0 < stop" "stop \<le> step"
  have "(stop + step - 1) div step = 1"
    using a by (intro int_div_pos_eq [where r = "stop - 1"]) simp_all
  then show ?thesis using a by (simp add: py_range0_def)
qed


lemma trunc_quot_nonneg: "0 \<le> a \<Longrightarrow> 0 < b \<Longrightarrow> trunc_quot a b = a div b"
  by (cases "a = 0") (simp_all add: trunc_quot_def)



lemma find_highest_rms_window_ms_guard:
  "\<not> (0 < float_window_samples 22050 window_ms \<and>
      float_window_samples 22050 window_ms < int (length y)) \<Longrightarrow>
   find_highest_rms_window_ms np_rms y window_ms 22050 = Inr 0"
  by (auto simp: find_highest_rms_window_ms_def Let_def)











text \<open>
  The float window is below the exact quotient by at most 112 samples, for every
  \<open>window_ms\<close> that binary64 holds exactly.
\<close>

lemma float_window_lower:
  assumes "0 < w" "w < 2 ^ 53"
  shows "(22050 * w) div 1000 - 112 \<le> float_window_samples 22050 w"
proof -
  define x :: rat where "x = of_int w"
  define wf where "wf = round64 x"
  define q where "q = round64 (wf / 1000)"
  define p where "p = round64 (22050 * q)"
  have x: "0 < x" "x < 9007199254740992"
    using assms by (simp_all add: x_def)
  from x have x0: "0 \<le> x" by simp
  from round64_bounds [OF x0] have wf: "x - x / 9007199254740992 \<le> wf" "wf \<le> x + x / 9007199254740992"
    by (simp_all add: wf_def)
  from x0 have wf0: "0 \<le> wf" unfolding wf_def by (rule round64_nonneg)
  then have wq: "0 \<le> wf / 1000" by simp
  from round64_bounds [OF wq] have q: "wf / 1000 - wf / 1000 / 9007199254740992 \<le> q"
    "q \<le> wf / 1000 + wf / 1000 / 9007199254740992"
    by (simp_all add: q_def)
  from wq have q0: "0 \<le> q" unfolding q_def by (rule round64_nonneg)
  then have qp: "0 \<le> 22050 * q" by simp
  from round64_bounds(1) [OF qp] have p: "22050 * q - 22050 * q / 9007199254740992 \<le> p"
    by (simp add: p_def)
  from qp have p0: "0 \<le> p" unfolding p_def by (rule round64_nonneg)
  have low: "22050 * x / 1000 - 111 \<le> p"
    using x wf q p by linarith
  have pf: "py_float w = wf"
    by (simp add: py_float_def wf_def x_def)
  have "float_window_samples 22050 w = py_int p"
    unfolding float_window_samples_def py_float_22050 pf p_def q_def ..
  with p0 have W: "float_window_samples 22050 w = \<lfloor>p\<rfloor>"
    by (simp add: py_int_def)
  have "rat_of_int ((22050 * w) div 1000) = of_int \<lfloor>rat_of_int (22050 * w) / rat_of_int 1000\<rfloor>"
    by (simp only: floor_divide_of_int_eq)
  also have "\<dots> \<le> rat_of_int (22050 * w) / rat_of_int 1000"
    by (rule of_int_floor_le)
  also have "\<dots> = 22050 * x / 1000" by (simp add: x_def)
  finally have E: "rat_of_int ((22050 * w) div 1000) \<le> 22050 * x / 1000" .
  have "p < of_int \<lfloor>p\<rfloor> + 1" by linarith
  with low E have "rat_of_int ((22050 * w) div 1000 - 112) < of_int \<lfloor>p\<rfloor>"
    by simp
  then have "(22050 * w) div 1000 - 112 < \<lfloor>p\<rfloor>"
    by (simp only: of_int_less_iff)
  then show ?thesis by (simp add: W)
qed

lemma scan_single_window: "fst (scan_windows np_rms y w [0] (0, - 1)) = 0"
  by (simp add: Let_def)

lemma find_zero_below_exact_window:
  assumes "snippet_ms < 2 ^ 53" "y \<noteq> []"
    "int (length y) \<le> trunc_quot (22050 * snippet_ms) 1000"
  shows "find_highest_rms_window_ms np_rms y snippet_ms 22050 = Inr 0"
proof -
  let ?W = "float_window_samples 22050 snippet_ms"
  from assms(2) have len: "1 \<le> int (length y)" by (cases y) simp_all
  have pos: "0 < snippet_ms"
  proof (rule ccontr)
    assume "\<not> 0 < snippet_ms"
    then have "trunc_quot (22050 * snippet_ms) 1000 \<le> 0"
      by (cases "snippet_ms = 0")
        (simp_all add: trunc_quot_def sgn_if mult_le_0_iff zero_le_mult_iff div_int_pos_iff)
    with assms(3) len show False by simp
  qed
  then have E: "trunc_quot (22050 * snippet_ms) 1000 = (22050 * snippet_ms) div 1000"
    by (intro trunc_quot_nonneg) simp_all
  from float_window_lower [OF pos assms(1)] E assms(3)
  have near: "int (length y) - 112 \<le> ?W" by simp
  show ?thesis
  proof (cases "0 < ?W \<and> ?W < int (length y)")
    case False
    then show ?thesis by (rule find_highest_rms_window_ms_guard)
  next
    case True
    with near have "py_range0 (int (length y) - ?W + 1) 1102 = [0]"
      by (intro py_range0_single) simp_all
    then show ?thesis
      using True assms(2) scan_single_window [of np_rms y "nat ?W"]
      by (simp add: find_highest_rms_window_ms_def hop_22050 start_0 Let_def split: prod.splits)
  qed
qed

text \<open>
  C10. If the analysis buffer of the source file is empty, or the window
  \<open>W = int(22050 * (snippet_ms / 1000.0))\<close> is not positive or is at least as long as that
  buffer, the method \<open>highest_rms\<close> selects start offset 0. In particular this is so when
  the source track is shorter than \<open>snippet_ms\<close> (pydub's millisecond count is below
  \<open>snippet_ms\<close> and the analysis buffer holds less than one millisecond more than that
  count), for \<open>snippet_ms\<close> below \<open>2 ^ 53\<close>: the float window may fall short of the exact
  quotient \<open>22050 * snippet_ms div 1000\<close>, but by less than one hop, so that a buffer no
  longer than the exact quotient has the single window at 0.
\<close>

theorem highest_rms_short_source_starts_at_zero:
  "librosa_y source_wav = [] \<or>
   float_window_samples 22050 snippet_ms \<le> 0 \<or>
   int (length (librosa_y source_wav)) \<le> float_window_samples 22050 snippet_ms \<or>
   (snippet_ms < 2 ^ 53 \<and>
    (int (length (librosa_y source_wav)) \<le> trunc_quot (22050 * snippet_ms) 1000 \<or>
     (seg_len (pydub source_wav) < snippet_ms \<and>
      1000 * int (length (librosa_y source_wav)) < 22050 * (seg_len (pydub source_wav) + 1)))) \<Longrightarrow>
   \<exists>sn. make_snippet randint np_rms source_wav snippet_ms ''highest_rms'' seed = Inr sn \<and>
        sn_start_ms sn = 0"
proof -
  let ?y = "librosa_y source_wav"
  let ?W = "float_window_samples 22050 snippet_ms"
  let ?E = "trunc_quot (22050 * snippet_ms) 1000"
  assume h: "?y = [] \<or> ?W \<le> 0 \<or> int (length ?y) \<le> ?W \<or>
   (snippet_ms < 2 ^ 53 \<and>
    (int (length ?y) \<le> ?E \<or>
     (seg_len (pydub source_wav) < snippet_ms \<and>
      1000 * int (length ?y) < 22050 * (seg_len (pydub source_wav) + 1))))"
  have zero: "find_highest_rms_window_ms np_rms ?y snippet_ms 22050 = Inr 0"
  proof (cases "?y = [] \<or> ?W \<le> 0 \<or> int (length ?y) \<le> ?W")
    case True
    then show ?thesis
      by (auto simp: find_highest_rms_window_ms_def Let_def)
  next
    case False
    with h have bound: "snippet_ms < 2 ^ 53"
      and short: "int (length ?y) \<le> ?E \<or>
        (seg_len (pydub source_wav) < snippet_ms \<and>
         1000 * int (length ?y) < 22050 * (seg_len (pydub source_wav) + 1))"
      by blast+
    from False have ne: "?y \<noteq> []" by simp
    have "int (length ?y) \<le> ?E"
    proof (cases "int (length ?y) \<le> ?E")
      case True
      then show ?thesis .
    next
      case False
      with short have ms: "seg_len (pydub source_wav) < snippet_ms"
        and len: "1000 * int (length ?y) < 22050 * (seg_len (pydub source_wav) + 1)"
        by blast+
      from ne have "1 \<le> int (length ?y)" by (cases ?y) simp_all
      with len have "0 \<le> seg_len (pydub source_wav)" by simp
      with ms have pos: "0 \<le> 22050 * snippet_ms" by simp
      from ms len have "int (length ?y) * 1000 \<le> 22050 * snippet_ms" by simp
      then have "(int (length ?y) * 1000) div 1000 \<le> (22050 * snippet_ms) div 1000"
        by (rule zdiv_mono1) simp
      then have "int (length ?y) \<le> (22050 * snippet_ms) div 1000"
        by simp
      with pos show ?thesis by (simp add: trunc_quot_nonneg)
    qed
    with bound ne show ?thesis by (rule find_zero_below_exact_window)
  qed
  then show ?thesis
    by (simp add: make_snippet_def Let_def)
qed

theorem highest_rms_short_source_starts_at_zero_witness:
  "(150::int) < 2 ^ 53 \<and>
   seg_len (pydub short_track) < 150 \<and>
   1000 * int (length (librosa_y short_track)) < 22050 * (seg_len (pydub short_track) + 1) \<and>
   (\<exists>sn. make_snippet (\<lambda>seed lo hi. lo) exact_rms short_track 150 ''highest_rms'' None = Inr sn \<and>
         sn_start_ms sn = 0)"
proof -
  have h: "(150::int) < 2 ^ 53 \<and>
   seg_len (pydub short_track) < 150 \<and>
   1000 * int (length (librosa_y short_track)) < 22050 * (seg_len (pydub short_track) + 1)"
    by (simp add: short_track_def len_short)
  then have "librosa_y short_track = [] \<or>
   float_window_samples 22050 150 \<le> 0 \<or>
   int (length (librosa_y short_track)) \<le> float_window_samples 22050 150 \<or>
   ((150::int) < 2 ^ 53 \<and>
    (int (length (librosa_y short_track)) \<le> trunc_quot (22050 * 150) 1000 \<or>
     (seg_len (pydub short_track) < 150 \<and>
      1000 * int (length (librosa_y short_track)) < 22050 * (seg_len (pydub short_track) + 1))))"
    by blast
  from highest_rms_short_source_starts_at_zero [OF this, of "\<lambda>seed lo hi. lo" exact_rms None] h
  show ?thesis by blast
qed

section \<open>Properties of the loop body of main\<close>

lemma py_round3_grid: "py_round3 (real_of_int m / 1000) = real_of_int m / 1000"
  by (simp add: py_round3_def)

lemma py_round3_idem: "py_round3 (py_round3 x) = py_round3 x"
proof -
  have "\<exists>m. py_round3 x = real_of_int m / 1000"
    unfolding py_round3_def Let_def by (rule exI) (rule refl)
  then obtain m where m: "py_round3 x = real_of_int m / 1000" ..
  show ?thesis unfolding m by (rule py_round3_grid)
qed

lemma py_round3_sixteenth: "py_round3 (1 / 16) = 62 / 1000"
proof -
  have f: "\<lfloor>125 / 2 :: real\<rfloor> = 62" by linarith
  show ?thesis by (simp add: py_round3_def Let_def f)
qed

lemma analyse_run_state:
  "calls (snd (analyse E args model_version k prompt gen_time w)) = calls w \<and>
   trace (snd (analyse E args model_version k prompt gen_time w)) = trace w \<and>
   audio_files (snd (analyse E args model_version k prompt gen_time w)) = audio_files w"
  by (simp add: analyse_def split: option.splits sum.splits)

lemma audio_path_of_0: "audio_path_of 0 = ''outputs/audio/song_01.wav''"
  by (simp add: audio_path_of_def pad2_def decimal.simps)

lemma snippet_path_of_0: "snippet_path_of 0 = ''outputs/snippets/song_01_snippet.wav''"
  by (simp add: snippet_path_of_def pad2_def decimal.simps)

lemma seconds_15: "round64 (py_float 15000 / 1000) = 15" by code_simp

lemma short_track_snippet:
  "make_snippet (env_randint (demo_env remote)) (env_rms (demo_env remote)) short_track
      (arg_snippet_seconds demo_args * 1000)
      (arg_snippet_method demo_args) (Some (arg_seed demo_args + int 0)) =
   Inr \<lparr> sn_audio = \<lparr> seg_frames = 330750, seg_rate = 22050 \<rparr>, sn_start_ms = 0,
         sn_method = ''highest_rms'', sn_length_seconds = 15 \<rparr>"
  by (simp add: make_snippet_def demo_args_def demo_env_def find_highest_rms_window_ms_def
      window_15000 seconds_15 looped_audio_def seg_repeat_def loops_15000 Let_def
      short_track_def len_short)

lemma short_track_features:
  "compute_audio_features (env_librosa (demo_env remote)) (librosa_y short_track) =
    Inr \<lparr> duration_seconds = 2205 / 22050, tempo_bpm = 0, rms_mean = 1 / 10,
          spectral_centroid_mean = 1500, zero_crossing_rate_mean = 1 / 20, mfcc1_mean = - 200 \<rparr>"
  by (simp add: compute_audio_features_def demo_env_def tempo_fails_def short_track_def)

lemma coarse_recorded:
  "load_existing demo_args coarse_world = Some [coarse_row] \<and>
   recorded_row (load_existing demo_args coarse_world) (audio_path_of 0) = Some coarse_row"
  by (simp add: load_existing_def demo_args_def coarse_world_def resumed_world_def
      coarse_row_def earlier_row_def audio_path_of_0 recorded_row_def)

lemma rotated_first: "take (Suc 0) (rotate 42 [0..<30]) = [12]" by code_simp

lemma coarse_prompts:
  "fst (sample_prompts counter_random 0 (arg_num_tracks demo_args) (arg_seed demo_args))
     = Inr [PROMPT_POOL ! 12]"
  using rotated_first
  by (simp add: sample_prompts_def counter_random_def demo_args_def length_PROMPT_POOL Let_def)

text \<open>
  C6, as stated, fails for a recorded time with more than three decimals: the row is
  written with \<open>round(gen_time, 3)\<close> on the resume path too. With a ledger row that
  records \<open>0.0625\<close> seconds for track 0, a run that is not forced writes \<open>0.062\<close> into the
  new row of track 0.
\<close>

theorem resume_rounds_recorded_time:
  "load_existing demo_args coarse_world = Some [coarse_row] \<and>
   recorded_row (load_existing demo_args coarse_world) (audio_path_of 0) = Some coarse_row \<and>
   \<not> arg_force demo_args \<and>
   row_generation_time_seconds coarse_row = 1 / 16 \<and>
   map_sum id (map row_generation_time_seconds)
     (fst (main counter_random (demo_env always_raises) demo_args (Some ''token'') 0 coarse_world))
     = Inr [62 / 1000]"
proof -
  have present: "audio_files coarse_world (audio_path_of 0) = Some short_track"
    by (simp add: coarse_world_def resumed_world_def audio_path_of_0)
  have t: "row_generation_time_seconds coarse_row = 1 / 16"
    by (simp add: coarse_row_def)
  have "map_sum id row_generation_time_seconds
     (fst (process_track (demo_env always_raises) demo_args (load_existing demo_args coarse_world)
        (env_model_version (demo_env always_raises) (arg_model demo_args)) 0 (PROMPT_POOL ! 12) coarse_world))
     = Inr (62 / 1000)"
    using coarse_recorded [THEN conjunct2] short_track_snippet [of always_raises]
      short_track_features [of always_raises]
    by (simp add: process_track_def analyse_def present t py_round3_sixteenth)
  then have "map_sum id (map row_generation_time_seconds)
     (fst (main counter_random (demo_env always_raises) demo_args (Some ''token'') 0 coarse_world))
     = Inr [62 / 1000]"
    by (auto simp: main_def coarse_prompts enumerate_eq_zip split: prod.splits sum.splits)
  moreover have "\<not> arg_force demo_args" by (simp add: demo_args_def)
  ultimately show ?thesis using coarse_recorded t by blast
qed

text \<open>
  C6, amended. Let the ledger be loaded (it exists and the run is not forced) and let \<open>r\<close>
  be its first row with the audio path of track \<open>k\<close>. Then the loop body for \<open>k\<close> is the
  analysis part alone, run with the generation time recorded in \<open>r\<close>: no remote call is
  made, the trace of \<open>run_model\<close> effects does not grow and the audio files stay as they
  are. The features and the snippet are computed again from the audio file: an exception
  of either leaves the loop body, and when both return, the new row holds
  \<open>round(recorded time, 3)\<close>, which is the recorded time itself whenever that was written
  as a rounded value, together with the features, the snippet path, method and length
  computed now, and the snippet computed now is exported under the snippet path of \<open>k\<close>.
\<close>

theorem resume_skips_generation:
  "load_existing args w0 = Some rows \<and>
   find (\<lambda>r. row_audio_path r = audio_path_of k) rows = Some r \<Longrightarrow>
   \<not> arg_force args \<and>
   process_track E args (load_existing args w0) model_version k prompt w =
     analyse E args model_version k prompt (row_generation_time_seconds r) w \<and>
   calls (snd (process_track E args (load_existing args w0) model_version k prompt w)) = calls w \<and>
   trace (snd (process_track E args (load_existing args w0) model_version k prompt w)) = trace w \<and>
   audio_files (snd (process_track E args (load_existing args w0) model_version k prompt w))
     = audio_files w \<and>
   (audio_files w (audio_path_of k) = Some source \<and>
    compute_audio_features (env_librosa E) (librosa_y source) = Inl e \<longrightarrow>
      fst (process_track E args (load_existing args w0) model_version k prompt w) = Inl e) \<and>
   (audio_files w (audio_path_of k) = Some source \<and>
    compute_audio_features (env_librosa E) (librosa_y source) = Inr features \<and>
    make_snippet (env_randint E) (env_rms E) source (arg_snippet_seconds args * 1000)
      (arg_snippet_method args) (Some (arg_seed args + int k)) = Inl e \<longrightarrow>
      fst (process_track E args (load_existing args w0) model_version k prompt w) = Inl e) \<and>
   (audio_files w (audio_path_of k) = Some source \<and>
    compute_audio_features (env_librosa E) (librosa_y source) = Inr features \<and>
    make_snippet (env_randint E) (env_rms E) source (arg_snippet_seconds args * 1000)
      (arg_snippet_method args) (Some (arg_seed args + int k)) = Inr sn \<longrightarrow>
      (\<exists>row. fst (process_track E args (load_existing args w0) model_version k prompt w) = Inr row \<and>
         row_audio_path row = audio_path_of k \<and>
         row_generation_time_seconds row = py_round3 (row_generation_time_seconds r) \<and>
         ((\<exists>x. row_generation_time_seconds r = py_round3 x) \<longrightarrow>
            row_generation_time_seconds row = row_generation_time_seconds r) \<and>
         row_features row = features \<and>
         row_snippet_path row = snippet_path_of k \<and>
         row_snippet_method row = sn_method sn \<and>
         row_snippet_length row = sn_length_seconds sn) \<and>
      snippet_files (snd (process_track E args (load_existing args w0) model_version k prompt w))
        = (snippet_files w)(snippet_path_of k \<mapsto> sn))"
proof -
  assume h: "load_existing args w0 = Some rows \<and>
   find (\<lambda>r. row_audio_path r = audio_path_of k) rows = Some r"
  then have force: "\<not> arg_force args"
    by (auto simp: load_existing_def split: if_splits)
  from h have rec: "recorded_row (load_existing args w0) (audio_path_of k) = Some r"
    by (simp add: recorded_row_def)
  then have skip: "process_track E args (load_existing args w0) model_version k prompt w =
     analyse E args model_version k prompt (row_generation_time_seconds r) w"
    by (simp add: process_track_def)
  have run: "calls (snd (process_track E args (load_existing args w0) model_version k prompt w)) = calls w"
    "trace (snd (process_track E args (load_existing args w0) model_version k prompt w)) = trace w"
    "audio_files (snd (process_track E args (load_existing args w0) model_version k prompt w))
       = audio_files w"
    unfolding skip using analyse_run_state by blast+
  have feat: "audio_files w (audio_path_of k) = Some source \<and>
    compute_audio_features (env_librosa E) (librosa_y source) = Inl e \<longrightarrow>
      fst (process_track E args (load_existing args w0) model_version k prompt w) = Inl e"
    unfolding skip by (simp add: analyse_def)
  have snip: "audio_files w (audio_path_of k) = Some source \<and>
    compute_audio_features (env_librosa E) (librosa_y source) = Inr features \<and>
    make_snippet (env_randint E) (env_rms E) source (arg_snippet_seconds args * 1000)
      (arg_snippet_method args) (Some (arg_seed args + int k)) = Inl e \<longrightarrow>
      fst (process_track E args (load_existing args w0) model_version k prompt w) = Inl e"
    unfolding skip by (simp add: analyse_def)
  have row: "audio_files w (audio_path_of k) = Some source \<and>
    compute_audio_features (env_librosa E) (librosa_y source) = Inr features \<and>
    make_snippet (env_randint E) (env_rms E) source (arg_snippet_seconds args * 1000)
      (arg_snippet_method args) (Some (arg_seed args + int k)) = Inr sn \<longrightarrow>
      (\<exists>row. fst (process_track E args (load_existing args w0) model_version k prompt w) = Inr row \<and>
         row_audio_path row = audio_path_of k \<and>
         row_generation_time_seconds row = py_round3 (row_generation_time_seconds r) \<and>
         ((\<exists>x. row_generation_time_seconds r = py_round3 x) \<longrightarrow>
            row_generation_time_seconds row = row_generation_time_seconds r) \<and>
         row_features row = features \<and>
         row_snippet_path row = snippet_path_of k \<and>
         row_snippet_method row = sn_method sn \<and>
         row_snippet_length row = sn_length_seconds sn) \<and>
      snippet_files (snd (process_track E args (load_existing args w0) model_version k prompt w))
        = (snippet_files w)(snippet_path_of k \<mapsto> sn)"
    unfolding skip by (auto simp: analyse_def py_round3_idem)
  from force skip run feat snip row show ?thesis by blast
qed

theorem resume_skips_generation_witness:
  "load_existing demo_args resumed_world = Some [earlier_row] \<and>
   find (\<lambda>r. row_audio_path r = audio_path_of 0) [earlier_row] = Some earlier_row \<and>
   row_generation_time_seconds earlier_row = py_round3 (7 / 2) \<and>
   calls (snd (process_track (demo_env always_raises) demo_args (load_existing demo_args resumed_world)
                 (Some ''v1'') 0 ''p'' resumed_world)) = 0 \<and>
   (\<exists>row. fst (process_track (demo_env always_raises) demo_args (load_existing demo_args resumed_world)
                 (Some ''v1'') 0 ''p'' resumed_world) = Inr row \<and>
         row_generation_time_seconds row = 7 / 2 \<and>
         row_features row \<noteq> row_features earlier_row \<and>
         row_snippet_path row = ''outputs/snippets/song_01_snippet.wav'' \<and>
         row_snippet_method row = ''highest_rms'' \<and>
         row_snippet_method earlier_row = ''random'') \<and>
   map_option sn_start_ms
     (snippet_files (snd (process_track (demo_env always_raises) demo_args
        (load_existing demo_args resumed_world) (Some ''v1'') 0 ''p'' resumed_world))
        ''outputs/snippets/song_01_snippet.wav'') = Some 0"
proof -
  let ?sn = "\<lparr> sn_audio = \<lparr> seg_frames = 330750, seg_rate = 22050 \<rparr>, sn_start_ms = 0,
         sn_method = ''highest_rms'', sn_length_seconds = 15 \<rparr>"
  let ?features = "\<lparr> duration_seconds = 2205 / 22050, tempo_bpm = 0, rms_mean = 1 / 10,
          spectral_centroid_mean = 1500, zero_crossing_rate_mean = 1 / 20, mfcc1_mean = - 200 \<rparr>"
  let ?run = "process_track (demo_env always_raises) demo_args (load_existing demo_args resumed_world)
                 (Some ''v1'') 0 ''p'' resumed_world"
  have h: "load_existing demo_args resumed_world = Some [earlier_row] \<and>
   find (\<lambda>r. row_audio_path r = audio_path_of 0) [earlier_row] = Some earlier_row"
    by (simp add: load_existing_def demo_args_def resumed_world_def earlier_row_def audio_path_of_0)
  have grid: "row_generation_time_seconds earlier_row = py_round3 (7 / 2)"
    by (simp add: earlier_row_def py_round3_def)
  have present: "audio_files resumed_world (audio_path_of 0) = Some short_track"
    by (simp add: resumed_world_def audio_path_of_0)
  note inst = resume_skips_generation [OF h, where E = "demo_env always_raises"
      and model_version = "Some ''v1''" and prompt = "''p''" and w = resumed_world
      and source = short_track and features = ?features and sn = ?sn]
  from inst have c: "calls (snd ?run) = calls resumed_world"
    by blast
  from inst present short_track_features [of always_raises] short_track_snippet [of always_raises] grid
  have "(\<exists>row. fst ?run = Inr row \<and>
         row_generation_time_seconds row = row_generation_time_seconds earlier_row \<and>
         row_features row = ?features \<and>
         row_snippet_path row = snippet_path_of 0 \<and>
         row_snippet_method row = sn_method ?sn) \<and>
      snippet_files (snd ?run) = (snippet_files resumed_world)(snippet_path_of 0 \<mapsto> ?sn)"
    by blast
  then obtain row where row: "fst ?run = Inr row"
    "row_generation_time_seconds row = row_generation_time_seconds earlier_row"
    "row_features row = ?features"
    "row_snippet_path row = snippet_path_of 0"
    "row_snippet_method row = sn_method ?sn"
    and files: "snippet_files (snd ?run) = (snippet_files resumed_world)(snippet_path_of 0 \<mapsto> ?sn)"
    by blast
  have "row_generation_time_seconds row = 7 / 2"
    using row(2) by (simp add: earlier_row_def)
  moreover have "row_features row \<noteq> row_features earlier_row"
    using row(3) by (simp add: earlier_row_def zero_features_def)
  moreover have "row_snippet_method earlier_row = ''random''"
    by (simp add: earlier_row_def)
  moreover have "calls resumed_world = 0"
    by (simp add: resumed_world_def)
  moreover have "row_snippet_path row = ''outputs/snippets/song_01_snippet.wav''"
    using row(4) by (simp add: snippet_path_of_0)
  moreover have "row_snippet_method row = ''highest_rms''"
    using row(5) by simp
  moreover have "map_option sn_start_ms
     (snippet_files (snd ?run) ''outputs/snippets/song_01_snippet.wav'') = Some 0"
    unfolding files by (simp add: snippet_path_of_0)
  ultimately show ?thesis using h grid c row(1) by auto
qed

end
